theory Spec2Isabelle
  imports Main "HOL-Library.Sublist"
begin

section \<open>The backup-and-inspect script \<open>hw1.py\<close>\<close>

text \<open>
  The script reads an inventory of devices, and for each device, one after the other,
  opens a Netmiko session, saves the running configuration to a file, runs three
  inspections (CDP neighbours, version, NTP), sets the time zone, closes the session
  and builds one report line. This theory embeds every function of the script that
  touches a session or the file system, with the outcome of each library call given
  by the environment, and exceptions as values.

  Text is \<open>string\<close>, that is a list of 8-bit characters: the model is about ASCII text,
  which is what the command line of these devices prints.
\<close>

subsection \<open>Exceptions\<close>

datatype exn =
    NetmikoException string   \<comment> \<open>raised by Netmiko: time-out, authentication, read time-out\<close>
  | OSError string            \<comment> \<open>raised by \<open>os.makedirs\<close>, \<open>open\<close> and \<open>write\<close>\<close>
  | FileExistsError string
  | NameError string
  | AttributeError string
  | IndexError string

subsection \<open>Data\<close>

text \<open>
  A device is one row of the inventory, as \<open>csv.DictReader\<close> gives it for a file whose
  header has the six columns the script reads: \<open>dev_ip d\<close> is \<open>d['ip']\<close>, and so on.
\<close>

record device =
  dev_ip :: string
  dev_username :: string
  dev_password :: string
  dev_device_type :: string
  dev_secret :: string
  dev_hostname :: string

text \<open>
  A row of a TextFSM table is a dictionary. The script reads four keys of the first row
  of the \<open>sh ver\<close> table and no key of any other row, so a row keeps these four, each
  absent (\<open>None\<close>) or present with the type the show-version template gives it:
  \<open>hardware\<close> is a list of texts, the other three are texts.
\<close>

record row =
  row_hostname :: "string option"
  row_hardware :: "string list option"
  row_version :: "string option"
  row_running_image :: "string option"

text \<open>
  What \<open>send_command(..., use_textfsm=True)\<close> returns: the table when a template parsed
  the text, the text itself otherwise. \<open>PyNone\<close> is Python's \<open>None\<close>.
\<close>

datatype cmd_output = Raw string | Structured "row list" | PyNone

text \<open>
  The outcome of every call on one session, and of the \<open>ConnectHandler\<close> call that opens
  it: an exception or a value. A command's outcome depends on the command text.
\<close>

record connection =
  connect_out :: "exn option"
  enable_out :: "exn option"
  send_command_out :: "string \<Rightarrow> exn + string"
  send_textfsm_out :: "string \<Rightarrow> exn + cmd_output"
  send_config_set_out :: "string list \<Rightarrow> exn option"
  disconnect_out :: "exn option"

datatype event =
    Print string
  | Connect device
  | Enable
  | SendCommand string bool   \<comment> \<open>the command, and \<open>use_textfsm\<close>\<close>
  | SendConfigSet "string list"
  | Sleep nat
  | Disconnect

text \<open>
  The world a run changes. \<open>log\<close> is the list of the calls made on sessions and on standard
  output, in the order they were made; a call is logged when it is made, whether or not
  it raises. The operating system is part of the environment, as the devices are: what
  \<open>os.path.exists\<close>, \<open>os.makedirs\<close>, \<open>open\<close> and \<open>write\<close> answer for a path is given
  by the world, and may depend on what has happened so far, that is on the log at the
  moment of the call. The model does not compute these answers from a file system of
  its own, so it never says that a path exists, or that a file can be opened, where the
  operating system would say otherwise. What the run itself did is recorded:
  \<open>made_dirs\<close> are the paths on which \<open>os.makedirs\<close> returned, in order, and \<open>files\<close> is
  the text that was last written through each path, keyed by the path as written.
  \<open>write_out\<close> gives, with the exception of a write that fails, how much of the text had
  reached the file.
\<close>

record world =
  made_dirs :: "string list"
  files :: "string \<rightharpoonup> string"
  os_path_exists_out :: "event list \<Rightarrow> string \<Rightarrow> bool"
  os_makedirs_out :: "event list \<Rightarrow> string \<Rightarrow> exn option"
  open_out :: "event list \<Rightarrow> string \<Rightarrow> exn option"
  write_out :: "event list \<Rightarrow> string \<Rightarrow> (exn \<times> nat) option"
  log :: "event list"

subsection \<open>Computations that change the world and may raise\<close>

type_synonym 'a io = "world \<Rightarrow> (exn + 'a) \<times> world"

definition return_io :: "'a \<Rightarrow> 'a io" where
  "return_io x w = (Inr x, w)"

definition raise_io :: "exn \<Rightarrow> 'a io" where
  "raise_io e w = (Inl e, w)"

definition bind_io :: "'a io \<Rightarrow> ('a \<Rightarrow> 'b io) \<Rightarrow> 'b io" where
  "bind_io m f w = (case m w of (Inl e, w') \<Rightarrow> (Inl e, w') | (Inr x, w') \<Rightarrow> f x w')"

definition record_event :: "event \<Rightarrow> world \<Rightarrow> world" where
  "record_event ev w = w\<lparr>log := log w @ [ev]\<rparr>"

definition print :: "string \<Rightarrow> unit io" where
  "print s w = (Inr (), record_event (Print s) w)"

definition call :: "event \<Rightarrow> exn option \<Rightarrow> unit io" where
  "call ev out w = ((case out of None \<Rightarrow> Inr () | Some e \<Rightarrow> Inl e), record_event ev w)"

subsection \<open>The library calls\<close>

definition ConnectHandler :: "connection \<Rightarrow> device \<Rightarrow> connection io" where
  "ConnectHandler host device =
     bind_io (call (Connect device) (connect_out host)) (\<lambda>_. return_io host)"

definition enable :: "connection \<Rightarrow> unit io" where
  "enable connection = call Enable (enable_out connection)"

definition send_command :: "connection \<Rightarrow> string \<Rightarrow> string io" where
  "send_command connection cmd w =
     (send_command_out connection cmd, record_event (SendCommand cmd False) w)"

definition send_command_textfsm :: "connection \<Rightarrow> string \<Rightarrow> cmd_output io" where
  "send_command_textfsm connection cmd w =
     (send_textfsm_out connection cmd, record_event (SendCommand cmd True) w)"

definition send_config_set :: "connection \<Rightarrow> string list \<Rightarrow> unit io" where
  "send_config_set connection cmds =
     call (SendConfigSet cmds) (send_config_set_out connection cmds)"

definition disconnect :: "connection \<Rightarrow> unit io" where
  "disconnect connection = call Disconnect (disconnect_out connection)"

definition sleep :: "nat \<Rightarrow> unit io" where
  "sleep n w = (Inr (), record_event (Sleep n) w)"

text \<open>
  \<open>os.path.join\<close> of the POSIX flavour: a component that starts with the separator
  replaces what was joined so far; otherwise it is appended, after a separator unless
  the path so far is empty or ends with one.
\<close>

definition join_step :: "string \<Rightarrow> string \<Rightarrow> string" where
  "join_step path b =
     (if prefix ''/'' b then b
      else if path = [] \<or> suffix ''/'' path then path @ b
      else path @ ''/'' @ b)"

definition os_path_join :: "string \<Rightarrow> string list \<Rightarrow> string" where
  "os_path_join a p = foldl join_step a p"

definition os_path_exists :: "string \<Rightarrow> bool io" where
  "os_path_exists p w = (Inr (os_path_exists_out w (log w) p), w)"

definition os_makedirs :: "string \<Rightarrow> unit io" where
  "os_makedirs p w =
     (case os_makedirs_out w (log w) p of
        Some e \<Rightarrow> (Inl e, w)
      | None \<Rightarrow> (Inr (), w\<lparr>made_dirs := made_dirs w @ [p]\<rparr>))"

text \<open>
  \<open>with open(path, 'w') as file: file.write(text)\<close>. When \<open>open\<close> raises, the file is not
  touched. Opening truncates the file, so after a write that fails the file holds the
  part of the text that had reached it.
\<close>

definition write_text :: "string \<Rightarrow> string \<Rightarrow> unit io" where
  "write_text path content w =
     (case open_out w (log w) path of
        Some e \<Rightarrow> (Inl e, w)
      | None \<Rightarrow>
          (case write_out w (log w) path of
             Some (e, k) \<Rightarrow> (Inl e, w\<lparr>files := (files w)(path \<mapsto> take k content)\<rparr>)
           | None \<Rightarrow> (Inr (), w\<lparr>files := (files w)(path \<mapsto> content)\<rparr>)))"

subsection \<open>Text\<close>

text \<open>\<open>sub in s\<close> on two texts.\<close>

fun str_contains :: "string \<Rightarrow> string \<Rightarrow> bool" where
  "str_contains sub [] = (sub = [])"
| "str_contains sub (c # cs) = (prefix sub (c # cs) \<or> str_contains sub cs)"

text \<open>\<open>str.upper()\<close> on ASCII text.\<close>

definition upper_char :: "char \<Rightarrow> char" where
  "upper_char c =
     (case map_of (zip ''abcdefghijklmnopqrstuvwxyz'' ''ABCDEFGHIJKLMNOPQRSTUVWXYZ'') c of
        None \<Rightarrow> c
      | Some u \<Rightarrow> u)"

definition upper :: "string \<Rightarrow> string" where
  "upper s = map upper_char s"

text \<open>\<open>str(n)\<close> for a length: the decimal digits.\<close>

definition digit :: "nat \<Rightarrow> char" where
  "digit d = ''0123456789'' ! d"

fun str_nat :: "nat \<Rightarrow> string" where
  "str_nat n = (if n < 10 then [digit n] else str_nat (n div 10) @ [digit (n mod 10)])"

declare str_nat.simps [simp del]

subsection \<open>The script\<close>

definition BACKUP_DIR_PATH :: string where
  "BACKUP_DIR_PATH = ''backups''"

definition NTP_SERVER :: string where
  "NTP_SERVER = ''10.10.0.1''"

definition connect_to_device :: "connection \<Rightarrow> device \<Rightarrow> connection io" where
  "connect_to_device host device =
     bind_io (ConnectHandler host device) (\<lambda>connection.
     bind_io (print (''Opened connection to '' @ dev_ip device)) (\<lambda>_.
     return_io connection))"

definition disconnect_from_device :: "connection \<Rightarrow> string \<Rightarrow> unit io" where
  "disconnect_from_device connection hostname =
     bind_io (disconnect connection) (\<lambda>_.
     print (''Connection to device '' @ hostname @ '' terminated''))"

definition get_backup_file_path :: "string \<Rightarrow> string \<Rightarrow> string io" where
  "get_backup_file_path hostname timestamp =
     bind_io (os_path_exists (os_path_join BACKUP_DIR_PATH [hostname])) (\<lambda>present.
     bind_io (if \<not> present then os_makedirs (os_path_join BACKUP_DIR_PATH [hostname])
              else return_io ()) (\<lambda>_.
     let backup_file_path =
           os_path_join BACKUP_DIR_PATH [hostname, hostname @ ''-'' @ timestamp @ ''.txt'']
     in bind_io (print (''Backup file path will be '' @ backup_file_path)) (\<lambda>_.
        return_io backup_file_path)))"

text \<open>
  \<open>try: body  except Error: handler\<close>, where no name \<open>Error\<close> is bound in the module:
  when the body raises, Python evaluates the expression after \<open>except\<close> to match the
  exception against it, and that evaluation raises \<open>NameError\<close>, which leaves the
  statement in place of the exception of the body. The handler never runs.
\<close>

definition try_except_Error :: "'a io \<Rightarrow> 'a io \<Rightarrow> 'a io" where
  "try_except_Error body handler w =
     (case body w of
        (Inl e, w') \<Rightarrow> (Inl (NameError ''Error''), w')
      | (Inr x, w') \<Rightarrow> (Inr x, w'))"

definition create_backup :: "connection \<Rightarrow> string \<Rightarrow> string \<Rightarrow> bool io" where
  "create_backup connection backup_file_path hostname =
     try_except_Error
       (bind_io (enable connection) (\<lambda>_.
        bind_io (send_command connection ''sh run'') (\<lambda>output.
        bind_io (write_text backup_file_path output) (\<lambda>_.
        bind_io (print (''Backup of '' @ hostname @ '' is complete!'')) (\<lambda>_.
        return_io True)))))
       (bind_io (print (''Error! Unable to backup device '' @ hostname)) (\<lambda>_.
        return_io False))"

text \<open>The part of \<open>check_cdp_neighbours_count\<close> after the command: the formatted result.\<close>

definition cdp_summary :: "cmd_output \<Rightarrow> string" where
  "cdp_summary output =
     (case output of
        Structured rows \<Rightarrow> ''CDP is ON, '' @ str_nat (length rows) @ '' peers''
      | _ \<Rightarrow> ''CDP is OFF, 0 peers'')"

definition check_cdp_neighbours_count :: "connection \<Rightarrow> string io" where
  "check_cdp_neighbours_count connection =
     bind_io (send_command_textfsm connection ''sh cdp neighbors detail'') (\<lambda>output.
     return_io (cdp_summary output))"

text \<open>\<open>not output\<close>: \<open>None\<close>, the empty text and the empty list are false.\<close>

definition falsy :: "cmd_output \<Rightarrow> bool" where
  "falsy output = (case output of PyNone \<Rightarrow> True | Raw s \<Rightarrow> s = [] | Structured rows \<Rightarrow> rows = [])"

text \<open>
  The part of \<open>check_version\<close> after the command. On a text that is not empty,
  \<open>output[0]\<close> is its first character, a \<open>str\<close>, which has no \<open>get\<close>. \<open>hardware[0]\<close> raises
  on an empty list. The four expressions of the tuple are evaluated from left to right.
\<close>

definition version_fields :: "cmd_output \<Rightarrow> exn + (string \<times> string \<times> string \<times> string)" where
  "version_fields output =
     (if falsy output then Inr ('''', '''', '''', '''')
      else case output of
        Structured (r # _) \<Rightarrow>
          (case (case row_hardware r of None \<Rightarrow> [''''] | Some hw \<Rightarrow> hw) of
             [] \<Rightarrow> Inl (IndexError ''list index out of range'')
           | hw0 # _ \<Rightarrow>
               Inr ((case row_hostname r of None \<Rightarrow> '''' | Some h \<Rightarrow> h),
                    hw0,
                    upper (case row_version r of None \<Rightarrow> '''' | Some v \<Rightarrow> v),
                    (if str_contains ''NPE''
                          (upper (case row_running_image r of None \<Rightarrow> '''' | Some i \<Rightarrow> i))
                     then ''NPE'' else ''PE'')))
      | _ \<Rightarrow> Inl (AttributeError ''str object has no attribute get''))"

definition check_version :: "connection \<Rightarrow> (string \<times> string \<times> string \<times> string) io" where
  "check_version connection =
     bind_io (send_command_textfsm connection ''sh ver'') (\<lambda>output.
     case version_fields output of Inl e \<Rightarrow> raise_io e | Inr t \<Rightarrow> return_io t)"

definition set_timezone :: "connection \<Rightarrow> unit io" where
  "set_timezone connection =
     bind_io (print ''Setting timezone to +0'') (\<lambda>_.
     send_config_set connection [''clock timezone GMT+0 0''])"

definition ping_ntp :: "connection \<Rightarrow> string \<Rightarrow> bool io" where
  "ping_ntp connection ntp_server =
     bind_io (print (''Ping NTP server '' @ ntp_server)) (\<lambda>_.
     bind_io (send_command connection (''ping '' @ ntp_server @ [CHR 0x0A])) (\<lambda>output.
     if str_contains ''.....'' output
     then bind_io (print ''NTP server is not available'') (\<lambda>_. return_io False)
     else bind_io (print ''Ok!'') (\<lambda>_. return_io True)))"

text \<open>The part of \<open>check_ntp\<close> after the last command: the status.\<close>

definition ntp_status :: "string \<Rightarrow> string \<Rightarrow> string" where
  "ntp_status ntp_server output =
     (if str_contains (''*~'' @ ntp_server) output then ''Clock in Sync'' else ''Not Sync'')"

definition check_ntp :: "connection \<Rightarrow> string \<Rightarrow> string io" where
  "check_ntp connection ntp_server =
     bind_io (print (''Promoting ntp server '' @ ntp_server)) (\<lambda>_.
     bind_io (send_config_set connection [''ntp server '' @ ntp_server]) (\<lambda>_.
     bind_io (sleep 4) (\<lambda>_.
     bind_io (send_command connection ''sh ntp asso'') (\<lambda>output.
     return_io (ntp_status ntp_server output)))))"

text \<open>
  \<open>process_target\<close> takes the device and the time stamp; \<open>host\<close> is how the device behind
  the address answers. The f-string joins six texts with \<open>|\<close>.
\<close>

definition process_target :: "connection \<Rightarrow> device \<Rightarrow> string \<Rightarrow> string io" where
  "process_target host device timestamp =
     bind_io (connect_to_device host device) (\<lambda>connection.
     bind_io (get_backup_file_path (dev_hostname device) timestamp) (\<lambda>backup_file_path.
     bind_io (create_backup connection backup_file_path (dev_hostname device)) (\<lambda>_.
     bind_io (check_cdp_neighbours_count connection) (\<lambda>cdp_result.
     bind_io (check_version connection) (\<lambda>(v_hostname, v_device_type, v_image, v_is_NPE).
     bind_io (set_timezone connection) (\<lambda>_.
     bind_io (ping_ntp connection NTP_SERVER) (\<lambda>_.
     bind_io (check_ntp connection NTP_SERVER) (\<lambda>ntp_result.
     bind_io (disconnect_from_device connection (dev_hostname device)) (\<lambda>_.
     return_io (v_hostname @ ''|'' @ v_device_type @ ''|'' @ v_image @ ''|'' @ v_is_NPE @ ''|''
                @ cdp_result @ ''|'' @ ntp_result))))))))))"

text \<open>
  The loop of \<open>main\<close> over the device list, with \<open>result\<close> the lines collected so far, and
  \<open>main\<close> after its two reads: \<open>timestamp\<close> is what \<open>get_current_date_and_time\<close> returned
  and the fleet is what \<open>get_devices_from_file\<close> returned, each device with the host
  behind it. \<open>print(*result, sep="\n")\<close> prints the lines joined by line feeds.
\<close>

fun main_loop :: "string \<Rightarrow> (device \<times> connection) list \<Rightarrow> string list \<Rightarrow> string list io" where
  "main_loop timestamp [] result = return_io result"
| "main_loop timestamp ((device, host) # rest) result =
     bind_io (process_target host device timestamp) (\<lambda>line.
     main_loop timestamp rest (result @ [line]))"

fun join_lines :: "string list \<Rightarrow> string" where
  "join_lines [] = []"
| "join_lines [l] = l"
| "join_lines (l # ls) = l @ [CHR 0x0A] @ join_lines ls"

definition main :: "string \<Rightarrow> (device \<times> connection) list \<Rightarrow> string list io" where
  "main timestamp device_list =
     bind_io (main_loop timestamp device_list []) (\<lambda>result.
     bind_io (print (join_lines result)) (\<lambda>_.
     return_io result))"

subsection \<open>Notions the statements use\<close>

text \<open>
  A text holds the token \<open>NPE\<close> in any letter case when three neighbouring characters
  are an \<open>N\<close> or \<open>n\<close>, a \<open>P\<close> or \<open>p\<close>, and an \<open>E\<close> or \<open>e\<close>. This is written from
  the words of the specification, not from the code.
\<close>

fun npe_any_case :: "string \<Rightarrow> bool" where
  "npe_any_case (a # b # c # rest) =
     ((a = CHR ''N'' \<or> a = CHR ''n'') \<and> (b = CHR ''P'' \<or> b = CHR ''p'') \<and>
      (c = CHR ''E'' \<or> c = CHR ''e'') \<or> npe_any_case (b # c # rest))"
| "npe_any_case _ = False"

text \<open>How many times \<open>disconnect\<close> was called in a world's log.\<close>

definition disconnects :: "world \<Rightarrow> nat" where
  "disconnects w = count_list (log w) Disconnect"

text \<open>
  The report line the answers of a host determine: the six fields of the f-string of
  \<open>process_target\<close>, computed from the host's answers to the three inspection commands,
  where all three answered and the version fields could be read.
\<close>

fun report_line_of :: "exn + cmd_output \<Rightarrow> exn + cmd_output \<Rightarrow> exn + string \<Rightarrow> string option" where
  "report_line_of (Inr cdp) (Inr ver) (Inr ntp) =
     (case version_fields ver of
        Inr (h, hw, v, cls) \<Rightarrow>
          Some (h @ ''|'' @ hw @ ''|'' @ v @ ''|'' @ cls @ ''|'' @ cdp_summary cdp @ ''|''
                @ ntp_status NTP_SERVER ntp)
      | Inl _ \<Rightarrow> None)"
| "report_line_of _ _ _ = None"

definition report_line :: "connection \<Rightarrow> string option" where
  "report_line host =
     report_line_of (send_textfsm_out host ''sh cdp neighbors detail'')
       (send_textfsm_out host ''sh ver'') (send_command_out host ''sh ntp asso'')"

text \<open>
  For the proofs: a computation that never calls \<open>disconnect\<close>; a computation that calls
  it exactly once when it returns and, if \<open>disconnect\<close> itself does not fail (\<open>ok\<close>), not
  at all when it raises; and the pipeline after the connection is open, which is
  \<open>process_target\<close> without its first step.
\<close>

definition quiet :: "'a io \<Rightarrow> bool" where
  "quiet m = (\<forall>w. disconnects (snd (m w)) = disconnects w)"

definition closes :: "bool \<Rightarrow> 'a io \<Rightarrow> bool" where
  "closes ok m = (\<forall>w w'.
     (\<forall>x. m w = (Inr x, w') \<longrightarrow> disconnects w' = disconnects w + 1) \<and>
     (\<forall>e. m w = (Inl e, w') \<longrightarrow> ok \<longrightarrow> disconnects w' = disconnects w))"

definition pipeline_rest :: "connection \<Rightarrow> device \<Rightarrow> string \<Rightarrow> string io" where
  "pipeline_rest connection device timestamp =
     bind_io (get_backup_file_path (dev_hostname device) timestamp) (\<lambda>backup_file_path.
     bind_io (create_backup connection backup_file_path (dev_hostname device)) (\<lambda>_.
     bind_io (check_cdp_neighbours_count connection) (\<lambda>cdp_result.
     bind_io (check_version connection) (\<lambda>(v_hostname, v_device_type, v_image, v_is_NPE).
     bind_io (set_timezone connection) (\<lambda>_.
     bind_io (ping_ntp connection NTP_SERVER) (\<lambda>_.
     bind_io (check_ntp connection NTP_SERVER) (\<lambda>ntp_result.
     bind_io (disconnect_from_device connection (dev_hostname device)) (\<lambda>_.
     return_io (v_hostname @ ''|'' @ v_device_type @ ''|'' @ v_image @ ''|'' @ v_is_NPE @ ''|''
                @ cdp_result @ ''|'' @ ntp_result)))))))))"


subsection \<open>Example inputs\<close>

text \<open>
  A world at the start of a run, in which no backup directory is there when the script
  asks and the operating system refuses nothing; two devices, a row of a show-version
  table, a host that answers every call, and hosts that differ from it in one answer.
\<close>

definition w0 :: world where
  "w0 = \<lparr>made_dirs = [], files = Map.empty, os_path_exists_out = (\<lambda>_ _. False),
         os_makedirs_out = (\<lambda>_ _. None), open_out = (\<lambda>_ _. None),
         write_out = (\<lambda>_ _. None), log = []\<rparr>"

definition r1 :: device where
  "r1 = \<lparr>dev_ip = ''10.0.0.1'', dev_username = ''admin'', dev_password = ''pw'',
         dev_device_type = ''cisco_ios'', dev_secret = ''en'', dev_hostname = ''r1''\<rparr>"

definition r2 :: device where
  "r2 = \<lparr>dev_ip = ''10.0.0.2'', dev_username = ''admin'', dev_password = ''pw'',
         dev_device_type = ''cisco_ios'', dev_secret = ''en'', dev_hostname = ''r2''\<rparr>"

definition ver_row :: row where
  "ver_row = \<lparr>row_hostname = Some ''R1'', row_hardware = Some [''3725''],
              row_version = Some ''12.4(15)t'',
              row_running_image = Some ''c3725-adventerprisek9_npe-mz.bin''\<rparr>"

definition healthy :: connection where
  "healthy = \<lparr>connect_out = None, enable_out = None,
     send_command_out = (\<lambda>cmd. if cmd = ''sh run'' then Inr ''hostname R1''
                               else if cmd = ''sh ntp asso'' then Inr '' *~10.10.0.1 .LOCL.''
                               else Inr ''!!!!!''),
     send_textfsm_out = (\<lambda>cmd. if cmd = ''sh ver'' then Inr (Structured [ver_row])
                               else Inr (Structured [])),
     send_config_set_out = (\<lambda>_. None),
     disconnect_out = None\<rparr>"

definition unparsed :: connection where
  "unparsed = healthy\<lparr>send_textfsm_out := (\<lambda>cmd. Inr (Raw ''% Invalid input detected''))\<rparr>"

definition not_selected :: connection where
  "not_selected = healthy\<lparr>send_command_out := (\<lambda>cmd. Inr '' +~10.10.0.1 .LOCL.'')\<rparr>"

definition raw_version :: connection where
  "raw_version = healthy\<lparr>send_textfsm_out := (\<lambda>cmd.
      if cmd = ''sh ver'' then Inr (Raw ''Cisco IOS Software, 3700 Software'')
      else Inr (Structured []))\<rparr>"

definition pe_row :: row where
  "pe_row = \<lparr>row_hostname = Some ''R2'', row_hardware = Some [''2911''],
             row_version = Some ''15.2(4)m'',
             row_running_image = Some ''c2900-universalk9-mz.bin''\<rparr>"

definition pe_host :: connection where
  "pe_host = healthy\<lparr>send_textfsm_out := (\<lambda>cmd.
      if cmd = ''sh ver'' then Inr (Structured [pe_row]) else Inr (Structured []))\<rparr>"

definition empty_version :: connection where
  "empty_version = healthy\<lparr>send_textfsm_out := (\<lambda>cmd. Inr (Structured []))\<rparr>"

text \<open>
  A host whose CDP command times out, a host that cannot be reached, and a disk on which
  every write fails.
\<close>

definition cdp_timeout :: connection where
  "cdp_timeout = healthy\<lparr>send_textfsm_out := (\<lambda>cmd.
      if cmd = ''sh cdp neighbors detail'' then Inl (NetmikoException ''read timeout'')
      else Inr (Structured [ver_row]))\<rparr>"

definition unreachable :: connection where
  "unreachable = healthy\<lparr>connect_out := Some (NetmikoException ''connection timed out'')\<rparr>"


text \<open>
  A world in which the backup directory of \<open>r1\<close> is there, with a backup file of an
  earlier run at the path of this one.
\<close>

definition with_old_backup :: world where
  "with_old_backup =
     w0\<lparr>os_path_exists_out := (\<lambda>_ _. True),
        files := [''backups/r1/r1-T.txt'' \<mapsto> ''hostname OLD'']\<rparr>"

text \<open>
  A show-version row with a no-payload-encryption image and an empty hardware list, and
  a host that returns it.
\<close>

definition no_hw_row :: row where
  "no_hw_row = \<lparr>row_hostname = Some ''R3'', row_hardware = Some [],
                row_version = Some ''15.2(4)m'',
                row_running_image = Some ''c2900-universalk9_npe-mz.bin''\<rparr>"

definition no_hw_host :: connection where
  "no_hw_host = healthy\<lparr>send_textfsm_out := (\<lambda>cmd.
      if cmd = ''sh ver'' then Inr (Structured [no_hw_row]) else Inr (Structured []))\<rparr>"

subsection \<open>When the backup step succeeds\<close>






section \<open>Properties\<close>

subsection \<open>Auxiliary facts\<close>

lemma bind_io_Inr:
  "bind_io m f w = (Inr y, w'') \<longleftrightarrow> (\<exists>x w'. m w = (Inr x, w') \<and> f x w' = (Inr y, w''))"
  by (auto simp: bind_io_def split: prod.splits sum.splits)

lemma bind_io_Inl:
  "bind_io m f w = (Inl e, w'') \<longleftrightarrow>
     m w = (Inl e, w'') \<or> (\<exists>x w'. m w = (Inr x, w') \<and> f x w' = (Inl e, w''))"
  by (auto simp: bind_io_def split: prod.splits sum.splits)

lemma return_io_eq: "return_io x w = (r, w') \<longleftrightarrow> r = Inr x \<and> w' = w"
  by (auto simp: return_io_def)

lemma raise_io_eq: "raise_io e w = (r, w') \<longleftrightarrow> r = Inl e \<and> w' = w"
  by (auto simp: raise_io_def)

lemma print_eq: "print s w = (r, w') \<longleftrightarrow> r = Inr () \<and> w' = record_event (Print s) w"
  by (auto simp: print_def)

lemma call_Inr: "call ev out w = (Inr u, w') \<longleftrightarrow> out = None \<and> w' = record_event ev w"
  by (auto simp: call_def split: option.splits)

lemma call_Inl: "call ev out w = (Inl e, w') \<longleftrightarrow> out = Some e \<and> w' = record_event ev w"
  by (auto simp: call_def split: option.splits)

lemma str_contains_iff: "str_contains sub s \<longleftrightarrow> (\<exists>pre post. s = pre @ sub @ post)"
proof (induction s)
  case Nil
  then show ?case by auto
next
  case (Cons c cs)
  have "(\<exists>pre post. c # cs = pre @ sub @ post) \<longleftrightarrow>
        prefix sub (c # cs) \<or> (\<exists>pre post. cs = pre @ sub @ post)"
    using sublist_Cons_right [of sub c cs] by (simp add: sublist_def)
  with Cons show ?case by simp
qed

lemma upper_char_eq_N: "upper_char c = CHR ''N'' \<longleftrightarrow> c = CHR ''N'' \<or> c = CHR ''n''"
  by (simp add: upper_char_def)

lemma upper_char_eq_P: "upper_char c = CHR ''P'' \<longleftrightarrow> c = CHR ''P'' \<or> c = CHR ''p''"
  by (simp add: upper_char_def)

lemma upper_char_eq_E: "upper_char c = CHR ''E'' \<longleftrightarrow> c = CHR ''E'' \<or> c = CHR ''e''"
  by (simp add: upper_char_def)

lemma prefix_NPE_upper:
  "prefix ''NPE'' (upper (a # b # c # rest)) \<longleftrightarrow>
     (a = CHR ''N'' \<or> a = CHR ''n'') \<and> (b = CHR ''P'' \<or> b = CHR ''p'') \<and>
     (c = CHR ''E'' \<or> c = CHR ''e'')"
proof -
  have "prefix ''NPE'' (upper (a # b # c # rest)) \<longleftrightarrow>
          upper_char a = CHR ''N'' \<and> upper_char b = CHR ''P'' \<and> upper_char c = CHR ''E''"
    by (auto simp: upper_def)
  then show ?thesis by (simp add: upper_char_eq_N upper_char_eq_P upper_char_eq_E)
qed

lemma upper_Cons: "upper (c # cs) = upper_char c # upper cs"
  by (simp add: upper_def)

lemma contains_NPE_upper: "str_contains ''NPE'' (upper s) = npe_any_case s"
proof (induction s rule: npe_any_case.induct)
  case (1 a b c rest)
  have "str_contains ''NPE'' (upper (a # b # c # rest)) \<longleftrightarrow>
          prefix ''NPE'' (upper (a # b # c # rest)) \<or> str_contains ''NPE'' (upper (b # c # rest))"
    by (simp add: upper_Cons)
  with 1 show ?case by (simp only: prefix_NPE_upper npe_any_case.simps)
qed (simp_all add: upper_def)

lemma record_event_simps [simp]:
  "log (record_event ev w) = log w @ [ev]"
  "made_dirs (record_event ev w) = made_dirs w"
  "files (record_event ev w) = files w"
  "os_path_exists_out (record_event ev w) = os_path_exists_out w"
  "os_makedirs_out (record_event ev w) = os_makedirs_out w"
  "open_out (record_event ev w) = open_out w"
  "write_out (record_event ev w) = write_out w"
  by (simp_all add: record_event_def)

lemma disconnects_record_event [simp]:
  "disconnects (record_event ev w) = disconnects w + (if ev = Disconnect then 1 else 0)"
  by (simp add: disconnects_def)

lemma disconnects_fs [simp]:
  "disconnects (w\<lparr>made_dirs := ds\<rparr>) = disconnects w"
  "disconnects (w\<lparr>files := fs\<rparr>) = disconnects w"
  by (simp_all add: disconnects_def)

lemma quiet_return: "quiet (return_io x)"
  by (simp add: quiet_def return_io_def)

lemma quiet_raise: "quiet (raise_io e)"
  by (simp add: quiet_def raise_io_def)

lemma quiet_print: "quiet (print s)"
  by (simp add: quiet_def print_def)

lemma quiet_sleep: "quiet (sleep n)"
  by (simp add: quiet_def sleep_def)

lemma quiet_call: "ev \<noteq> Disconnect \<Longrightarrow> quiet (call ev out)"
  by (simp add: quiet_def call_def)

lemma quiet_bind: "quiet m \<Longrightarrow> (\<And>x. quiet (f x)) \<Longrightarrow> quiet (bind_io m f)"
  unfolding quiet_def bind_io_def
proof
  fix w
  assume m: "\<forall>w. disconnects (snd (m w)) = disconnects w"
    and f: "\<And>x. \<forall>w. disconnects (snd (f x w)) = disconnects w"
  obtain r w1 where mw: "m w = (r, w1)" by (cases "m w")
  with m have w1: "disconnects w1 = disconnects w" by (metis snd_conv)
  show "disconnects (snd (case m w of (Inl e, w') \<Rightarrow> (Inl e, w') | (Inr x, w') \<Rightarrow> f x w'))
          = disconnects w"
    using mw w1 f by (cases r) simp_all
qed

lemma quiet_try: "quiet body \<Longrightarrow> quiet (try_except_Error body handler)"
  unfolding quiet_def try_except_Error_def
proof
  fix w
  assume q: "\<forall>w. disconnects (snd (body w)) = disconnects w"
  obtain r w1 where b: "body w = (r, w1)" by (cases "body w")
  with q have "disconnects w1 = disconnects w" by (metis snd_conv)
  with b show "disconnects (snd (case body w of
        (Inl e, w') \<Rightarrow> (Inl (NameError ''Error''), w')
      | (Inr x, w') \<Rightarrow> (Inr x, w'))) = disconnects w"
    by (cases r) simp_all
qed

lemma quiet_ConnectHandler: "quiet (ConnectHandler host d)"
  unfolding ConnectHandler_def by (intro quiet_bind quiet_call quiet_return) simp

lemma quiet_enable: "quiet (enable c)"
  unfolding enable_def by (rule quiet_call) simp

lemma quiet_send_command: "quiet (send_command c cmd)"
  by (simp add: quiet_def send_command_def)

lemma quiet_send_command_textfsm: "quiet (send_command_textfsm c cmd)"
  by (simp add: quiet_def send_command_textfsm_def)

lemma quiet_send_config_set: "quiet (send_config_set c cmds)"
  unfolding send_config_set_def by (rule quiet_call) simp

lemma quiet_os_path_exists: "quiet (os_path_exists p)"
  by (simp add: quiet_def os_path_exists_def)

lemma quiet_os_makedirs: "quiet (os_makedirs p)"
  by (simp add: quiet_def os_makedirs_def split: option.splits)

lemma quiet_write_text: "quiet (write_text p txt)"
  by (simp add: quiet_def write_text_def split: option.splits)

lemma quiet_if: "quiet m \<Longrightarrow> quiet n \<Longrightarrow> quiet (if b then m else n)"
  by simp

lemmas quiet_intros = quiet_bind quiet_try quiet_if quiet_return quiet_raise quiet_print
  quiet_sleep quiet_ConnectHandler quiet_enable quiet_send_command quiet_send_command_textfsm
  quiet_send_config_set quiet_os_path_exists quiet_os_makedirs quiet_write_text

lemma quiet_connect_to_device: "quiet (connect_to_device host d)"
  unfolding connect_to_device_def by (intro quiet_intros)

lemma quiet_get_backup_file_path: "quiet (get_backup_file_path h ts)"
  unfolding get_backup_file_path_def Let_def by (intro quiet_intros)

lemma quiet_create_backup: "quiet (create_backup c p h)"
  unfolding create_backup_def by (intro quiet_intros)

lemma quiet_check_cdp: "quiet (check_cdp_neighbours_count c)"
  unfolding check_cdp_neighbours_count_def by (intro quiet_intros)

lemma quiet_check_version: "quiet (check_version c)"
  unfolding check_version_def
  by (intro quiet_intros) (simp add: quiet_raise quiet_return split: sum.splits)

lemma quiet_set_timezone: "quiet (set_timezone c)"
  unfolding set_timezone_def by (intro quiet_intros)

lemma quiet_ping_ntp: "quiet (ping_ntp c srv)"
  unfolding ping_ntp_def by (intro quiet_intros)

lemma quiet_check_ntp: "quiet (check_ntp c srv)"
  unfolding check_ntp_def by (intro quiet_intros)

lemma quietD: "quiet m \<Longrightarrow> m w = (r, w') \<Longrightarrow> disconnects w' = disconnects w"
  by (metis quiet_def snd_conv)

lemma connect_to_device_run:
  "connect_to_device host d w =
     (case connect_out host of
        Some e \<Rightarrow> (Inl e, record_event (Connect d) w)
      | None \<Rightarrow> (Inr host, record_event (Print (''Opened connection to '' @ dev_ip d))
                            (record_event (Connect d) w)))"
  by (simp add: connect_to_device_def ConnectHandler_def bind_io_def call_def return_io_def
        print_def split: option.splits)

lemma disconnect_from_device_run:
  "disconnect_from_device c h w =
     (case disconnect_out c of
        Some e \<Rightarrow> (Inl e, record_event Disconnect w)
      | None \<Rightarrow> (Inr (), record_event (Print (''Connection to device '' @ h @ '' terminated''))
                          (record_event Disconnect w)))"
  by (simp add: disconnect_from_device_def disconnect_def bind_io_def call_def print_def
        split: option.splits)

lemma closesD_Inr: "closes ok m \<Longrightarrow> m w = (Inr x, w') \<Longrightarrow> disconnects w' = disconnects w + 1"
  unfolding closes_def by blast

lemma closesD_Inl: "closes ok m \<Longrightarrow> m w = (Inl e, w') \<Longrightarrow> ok \<Longrightarrow> disconnects w' = disconnects w"
  unfolding closes_def by blast

lemma closes_bind:
  assumes m: "quiet m" and f: "\<And>x. closes ok (f x)"
  shows "closes ok (bind_io m f)"
  unfolding closes_def
proof (intro allI conjI impI)
  fix w w' y
  assume "bind_io m f w = (Inr y, w')"
  then obtain x w1 where mw: "m w = (Inr x, w1)" and fx: "f x w1 = (Inr y, w')"
    unfolding bind_io_Inr by blast
  from quietD [OF m mw] closesD_Inr [OF f fx] show "disconnects w' = disconnects w + 1" by simp
next
  fix w w' e
  assume b: "bind_io m f w = (Inl e, w')" and ok: ok
  from b consider "m w = (Inl e, w')" | x w1 where "m w = (Inr x, w1)" "f x w1 = (Inl e, w')"
    unfolding bind_io_Inl by blast
  then show "disconnects w' = disconnects w"
  proof cases
    case 1
    then show ?thesis by (rule quietD [OF m])
  next
    case 2
    from quietD [OF m 2(1)] closesD_Inl [OF f 2(2) ok] show ?thesis by simp
  qed
qed

lemma closes_disconnect:
  "closes (disconnect_out c = None) (bind_io (disconnect_from_device c h) (\<lambda>_. return_io line))"
  unfolding closes_def
  by (simp add: bind_io_def disconnect_from_device_run return_io_def split: option.splits)

lemma closes_case_prod4:
  "(\<And>a b c d. closes ok (f a b c d)) \<Longrightarrow> closes ok (case x of (a, b, c, d) \<Rightarrow> f a b c d)"
  by (cases x) simp

lemma process_target_rest:
  "process_target host d ts = bind_io (connect_to_device host d) (\<lambda>c. pipeline_rest c d ts)"
  unfolding process_target_def pipeline_rest_def ..

lemma closes_pipeline_rest: "closes (disconnect_out c = None) (pipeline_rest c d ts)"
  unfolding pipeline_rest_def
  apply (rule closes_bind [OF quiet_get_backup_file_path])
  apply (rule closes_bind [OF quiet_create_backup])
  apply (rule closes_bind [OF quiet_check_cdp])
  apply (rule closes_bind [OF quiet_check_version])
  apply (rule closes_case_prod4)
  apply (rule closes_bind [OF quiet_set_timezone])
  apply (rule closes_bind [OF quiet_ping_ntp])
  apply (rule closes_bind [OF quiet_check_ntp])
  apply (rule closes_disconnect)
  done

lemma process_target_Inr:
  assumes "process_target host d ts w = (Inr line, w')"
  shows "disconnects w' = disconnects w + 1"
proof -
  from assms obtain c w1 where c: "connect_to_device host d w = (Inr c, w1)"
    and r: "pipeline_rest c d ts w1 = (Inr line, w')"
    unfolding process_target_rest bind_io_Inr by blast
  from c have "disconnects w1 = disconnects w" by (rule quietD [OF quiet_connect_to_device])
  moreover from closes_pipeline_rest r have "disconnects w' = disconnects w1 + 1"
    by (rule closesD_Inr)
  ultimately show ?thesis by simp
qed

lemma process_target_Inl:
  assumes "process_target host d ts w = (Inl e, w')" and ok: "disconnect_out host = None"
  shows "disconnects w' = disconnects w"
proof -
  from assms(1) consider "connect_to_device host d w = (Inl e, w')"
    | c w1 where "connect_to_device host d w = (Inr c, w1)" "pipeline_rest c d ts w1 = (Inl e, w')"
    unfolding process_target_rest bind_io_Inl by blast
  then show ?thesis
  proof cases
    case 1
    then show ?thesis by (rule quietD [OF quiet_connect_to_device])
  next
    case 2
    from 2(1) have w1: "disconnects w1 = disconnects w"
      by (rule quietD [OF quiet_connect_to_device])
    from 2(1) have "c = host" by (simp add: connect_to_device_run split: option.splits)
    with ok have okc: "disconnect_out c = None" by simp
    from closes_pipeline_rest 2(2) okc have "disconnects w' = disconnects w1"
      by (rule closesD_Inl)
    with w1 show ?thesis by simp
  qed
qed

lemma check_cdp_Inr:
  "check_cdp_neighbours_count c w = (Inr s, w') \<Longrightarrow>
     \<exists>out. send_textfsm_out c ''sh cdp neighbors detail'' = Inr out \<and> s = cdp_summary out"
  by (cases "send_textfsm_out c ''sh cdp neighbors detail''")
     (simp_all add: check_cdp_neighbours_count_def bind_io_def send_command_textfsm_def
        return_io_def)

lemma check_version_Inr:
  "check_version c w = (Inr t, w') \<Longrightarrow>
     \<exists>out. send_textfsm_out c ''sh ver'' = Inr out \<and> version_fields out = Inr t"
  by (cases "send_textfsm_out c ''sh ver''")
     (auto simp: check_version_def bind_io_def send_command_textfsm_def
        return_io_def raise_io_def split: sum.splits)

lemma check_ntp_run:
  "check_ntp c srv w =
     (case send_config_set_out c [''ntp server '' @ srv] of
        Some e \<Rightarrow> (Inl e, record_event (SendConfigSet [''ntp server '' @ srv])
                          (record_event (Print (''Promoting ntp server '' @ srv)) w))
      | None \<Rightarrow>
          (map_sum id (ntp_status srv) (send_command_out c ''sh ntp asso''),
           record_event (SendCommand ''sh ntp asso'' False)
             (record_event (Sleep 4)
               (record_event (SendConfigSet [''ntp server '' @ srv])
                 (record_event (Print (''Promoting ntp server '' @ srv)) w)))))"
  by (cases "send_command_out c ''sh ntp asso''")
     (simp_all add: check_ntp_def bind_io_def print_def send_config_set_def call_def sleep_def
        send_command_def return_io_def split: option.splits)

lemma check_ntp_Inr:
  "check_ntp c srv w = (Inr s, w') \<Longrightarrow>
     \<exists>out. send_command_out c ''sh ntp asso'' = Inr out \<and> s = ntp_status srv out"
  by (cases "send_command_out c ''sh ntp asso''")
     (auto simp: check_ntp_run split: option.splits)

lemma pipeline_rest_line:
  assumes "pipeline_rest c d ts w = (Inr line, w')"
  shows "report_line c = Some line"
proof -
  from assms obtain cdp_result t ntp_result w3 w4 w5 w7 w8 where
    cdp: "check_cdp_neighbours_count c w3 = (Inr cdp_result, w4)" and
    ver: "check_version c w4 = (Inr t, w5)" and
    ntp: "check_ntp c NTP_SERVER w7 = (Inr ntp_result, w8)" and
    line: "line = (case t of (h, hw, v, cls) \<Rightarrow>
             h @ ''|'' @ hw @ ''|'' @ v @ ''|'' @ cls @ ''|'' @ cdp_result @ ''|'' @ ntp_result)"
    unfolding pipeline_rest_def
    by (auto simp: bind_io_Inr return_io_eq split: prod.splits)
  from check_cdp_Inr [OF cdp] check_version_Inr [OF ver] check_ntp_Inr [OF ntp] line
  show ?thesis by (auto simp: report_line_def split: prod.splits)
qed

lemma process_target_line:
  assumes "process_target host d ts w = (Inr line, w')"
  shows "report_line host = Some line"
proof -
  from assms obtain c w1 where c: "connect_to_device host d w = (Inr c, w1)"
    and r: "pipeline_rest c d ts w1 = (Inr line, w')"
    unfolding process_target_rest bind_io_Inr by blast
  from c have "c = host" by (simp add: connect_to_device_run split: option.splits)
  with pipeline_rest_line [OF r] show ?thesis by simp
qed

lemma str_nat_0: "str_nat 0 = ''0''"
  by (simp add: str_nat.simps digit_def)

subsection \<open>The CDP summary\<close>

text \<open>
  Claim C6. When the CDP command returns a structured list of \<open>n\<close> neighbour rows,
  \<open>check_cdp_neighbours_count\<close> returns \<open>CDP is ON, n peers\<close>, also for \<open>n = 0\<close>; when it
  returns anything that is not a structured list, it returns \<open>CDP is OFF, 0 peers\<close>; and
  no summary of the first kind equals the summary of the second kind, so an empty
  neighbour list and unparsed output are told apart.
\<close>

theorem cdp_on_off:
  "(send_textfsm_out c ''sh cdp neighbors detail'' = Inr (Structured rows) \<longrightarrow>
      fst (check_cdp_neighbours_count c w)
        = Inr (''CDP is ON, '' @ str_nat (length rows) @ '' peers'')) \<and>
   (send_textfsm_out c ''sh cdp neighbors detail'' = Inr (Structured []) \<longrightarrow>
      fst (check_cdp_neighbours_count c w) = Inr ''CDP is ON, 0 peers'') \<and>
   (send_textfsm_out c ''sh cdp neighbors detail'' = Inr out \<and> (\<forall>rows. out \<noteq> Structured rows) \<longrightarrow>
      fst (check_cdp_neighbours_count c w) = Inr ''CDP is OFF, 0 peers'') \<and>
   ''CDP is ON, '' @ str_nat n @ '' peers'' \<noteq> ''CDP is OFF, 0 peers''"
  by (cases out)
     (simp_all add: check_cdp_neighbours_count_def bind_io_def send_command_textfsm_def
        return_io_def cdp_summary_def str_nat_0)

theorem cdp_on_off_witness:
  "send_textfsm_out healthy ''sh cdp neighbors detail'' = Inr (Structured []) \<and>
   fst (check_cdp_neighbours_count healthy w0) = Inr ''CDP is ON, 0 peers'' \<and>
   send_textfsm_out unparsed ''sh cdp neighbors detail'' = Inr (Raw ''% Invalid input detected'') \<and>
   fst (check_cdp_neighbours_count unparsed w0) = Inr ''CDP is OFF, 0 peers''"
proof -
  have a: "send_textfsm_out healthy ''sh cdp neighbors detail'' = Inr (Structured [])"
    by (simp add: healthy_def)
  have b: "send_textfsm_out unparsed ''sh cdp neighbors detail''
             = Inr (Raw ''% Invalid input detected'')"
    by (simp add: unparsed_def)
  have c: "\<forall>rows. Raw ''% Invalid input detected'' \<noteq> Structured rows" by simp
  from cdp_on_off [of healthy "[]" w0 PyNone 0] a
  have on: "fst (check_cdp_neighbours_count healthy w0) = Inr ''CDP is ON, 0 peers''" by blast
  from cdp_on_off [of unparsed "[]" w0 "Raw ''% Invalid input detected''" 0] b c
  have off: "fst (check_cdp_neighbours_count unparsed w0) = Inr ''CDP is OFF, 0 peers''" by blast
  from a b on off show ?thesis by blast
qed

subsection \<open>The NTP status\<close>

text \<open>
  Claim C8. When the NTP server line was configured and the association command
  returned the text \<open>out\<close>, \<open>check_ntp\<close> returns \<open>Clock in Sync\<close> if \<open>out\<close> contains \<open>*~\<close>
  immediately followed by the server address, and \<open>Not Sync\<close> otherwise; so the address
  without the \<open>*~\<close> before it gives \<open>Not Sync\<close>.
\<close>

theorem ntp_sync_iff:
  assumes "send_config_set_out c [''ntp server '' @ srv] = None"
    and "send_command_out c ''sh ntp asso'' = Inr out"
  shows "fst (check_ntp c srv w)
           = Inr (if \<exists>pre post. out = pre @ (''*~'' @ srv) @ post then ''Clock in Sync''
                  else ''Not Sync'')"
  using assms by (simp add: check_ntp_run ntp_status_def str_contains_iff)

theorem ntp_sync_iff_witness:
  "send_config_set_out healthy [''ntp server '' @ NTP_SERVER] = None \<and>
   send_command_out healthy ''sh ntp asso'' = Inr '' *~10.10.0.1 .LOCL.'' \<and>
   fst (check_ntp healthy NTP_SERVER w0) = Inr ''Clock in Sync'' \<and>
   send_command_out not_selected ''sh ntp asso'' = Inr '' +~10.10.0.1 .LOCL.'' \<and>
   fst (check_ntp not_selected NTP_SERVER w0) = Inr ''Not Sync''"
proof -
  have a: "send_config_set_out healthy [''ntp server '' @ NTP_SERVER] = None"
    and b: "send_command_out healthy ''sh ntp asso'' = Inr '' *~10.10.0.1 .LOCL.''"
    and a': "send_config_set_out not_selected [''ntp server '' @ NTP_SERVER] = None"
    and b': "send_command_out not_selected ''sh ntp asso'' = Inr '' +~10.10.0.1 .LOCL.''"
    by (simp_all add: healthy_def not_selected_def)
  have "str_contains (''*~'' @ NTP_SERVER) '' *~10.10.0.1 .LOCL.''"
    by (simp add: NTP_SERVER_def)
  then have yes: "\<exists>pre post. '' *~10.10.0.1 .LOCL.'' = pre @ (''*~'' @ NTP_SERVER) @ post"
    by (simp only: str_contains_iff)
  have "\<not> str_contains (''*~'' @ NTP_SERVER) '' +~10.10.0.1 .LOCL.''"
    by (simp add: NTP_SERVER_def)
  then have no: "\<not> (\<exists>pre post. '' +~10.10.0.1 .LOCL.'' = pre @ (''*~'' @ NTP_SERVER) @ post)"
    unfolding str_contains_iff .
  from ntp_sync_iff [OF a b, of w0] yes
  have s1: "fst (check_ntp healthy NTP_SERVER w0) = Inr ''Clock in Sync''" by simp
  from ntp_sync_iff [OF a' b', of w0] no
  have s2: "fst (check_ntp not_selected NTP_SERVER w0) = Inr ''Not Sync''" by simp
  from a b b' s1 s2 show ?thesis by blast
qed

subsection \<open>The version fields\<close>

lemma check_version_run:
  "check_version c w =
     ((case send_textfsm_out c ''sh ver'' of
         Inl e \<Rightarrow> Inl e
       | Inr out \<Rightarrow> version_fields out),
      record_event (SendCommand ''sh ver'' True) w)"
  by (cases "send_textfsm_out c ''sh ver''";
      cases "version_fields (projr (send_textfsm_out c ''sh ver''))")
     (simp_all add: check_version_def bind_io_def send_command_textfsm_def return_io_def
        raise_io_def)

text \<open>
  Claim C5 says that for every show-version output that is raw text, \<open>check_version\<close>
  returns four empty fields and never raises. The code does so for the empty text only:
  on a text that is not empty, such as the one a device prints when no template parses
  it, \<open>not output\<close> is false, \<open>output[0]\<close> is a character and \<open>.get\<close> on it raises
  \<open>AttributeError\<close>.
\<close>

theorem check_version_raw_text:
  "fst (check_version raw_version w0)
     = Inl (AttributeError ''str object has no attribute get'')"
  by (simp add: check_version_run raw_version_def version_fields_def falsy_def)

text \<open>
  What \<open>check_version\<close> makes of the outputs it has a branch for: four empty texts of
  the three outputs that are false, and of a table that is not empty the four fields of
  its first row, the later rows unread, unless the hardware list of that row is empty.
\<close>

lemma version_fields_first_row:
  "version_fields (Structured (r # rs)) =
     (if row_hardware r = Some [] then Inl (IndexError ''list index out of range'')
      else Inr (case row_hostname r of None \<Rightarrow> '''' | Some h \<Rightarrow> h,
                hd (case row_hardware r of None \<Rightarrow> [''''] | Some hw \<Rightarrow> hw),
                upper (case row_version r of None \<Rightarrow> '''' | Some v \<Rightarrow> v),
                if npe_any_case (case row_running_image r of None \<Rightarrow> '''' | Some i \<Rightarrow> i)
                then ''NPE'' else ''PE''))"
  by (auto simp: version_fields_def falsy_def contains_NPE_upper
        split: option.splits list.splits)

lemma version_fields_falsy:
  "out = PyNone \<or> out = Raw [] \<or> out = Structured [] \<Longrightarrow>
     version_fields out = Inr ('''', '''', '''', '''')"
  by (auto simp: version_fields_def falsy_def)

text \<open>
  Claim C10 says that \<open>check_version\<close> treats a table of zero records as it treats
  output that could not be parsed, both giving four empty texts. On the table of zero
  records the code returns the four empty texts. On the text a device prints when no
  template parses it, it raises \<open>AttributeError\<close>, because \<open>not output\<close> is false of
  a text that is not empty and \<open>output[0]\<close> has no \<open>get\<close>: the two are told apart.
\<close>

theorem version_zero_rows_and_raw_text:
  "send_textfsm_out empty_version ''sh ver'' = Inr (Structured []) \<and>
   fst (check_version empty_version w0) = Inr ('''', '''', '''', '''') \<and>
   send_textfsm_out unparsed ''sh ver'' = Inr (Raw ''% Invalid input detected'') \<and>
   fst (check_version unparsed w0) = Inl (AttributeError ''str object has no attribute get'')"
  by (simp add: check_version_run empty_version_def unparsed_def version_fields_def falsy_def)

text \<open>
  Claim C7 says that every parsed show-version record whose running image holds the
  token \<open>NPE\<close> is classified \<open>NPE\<close>. On a record whose hardware list is empty the code
  raises \<open>IndexError\<close> at \<open>hardware[0]\<close>, before the class is computed, whatever the
  image.
\<close>

theorem image_classification_no_hardware:
  "send_textfsm_out no_hw_host ''sh ver'' = Inr (Structured [no_hw_row]) \<and>
   row_running_image no_hw_row = Some ''c2900-universalk9_npe-mz.bin'' \<and>
   npe_any_case ''c2900-universalk9_npe-mz.bin'' \<and>
   fst (check_version no_hw_host w0) = Inl (IndexError ''list index out of range'')"
  by (simp add: check_version_run no_hw_host_def no_hw_row_def version_fields_first_row)

subsection \<open>The steps of the pipeline, run\<close>

lemma world_simps [simp]:
  "os_path_exists_out (w\<lparr>made_dirs := ds\<rparr>) = os_path_exists_out w"
  "os_makedirs_out (w\<lparr>made_dirs := ds\<rparr>) = os_makedirs_out w"
  "open_out (w\<lparr>made_dirs := ds\<rparr>) = open_out w"
  "write_out (w\<lparr>made_dirs := ds\<rparr>) = write_out w"
  by simp_all

lemma bind_io_assoc: "bind_io (bind_io m f) g = bind_io m (\<lambda>x. bind_io (f x) g)"
  by (rule ext) (simp add: bind_io_def split: prod.splits sum.splits)

lemma bind_io_return: "bind_io (return_io x) f = f x"
  by (rule ext) (simp add: bind_io_def return_io_def)

lemma get_backup_file_path_run:
  "get_backup_file_path h ts w =
     (let dir = os_path_join BACKUP_DIR_PATH [h];
          p = os_path_join BACKUP_DIR_PATH [h, h @ ''-'' @ ts @ ''.txt'']
      in if os_path_exists_out w (log w) dir
         then (Inr p, record_event (Print (''Backup file path will be '' @ p)) w)
         else case os_makedirs_out w (log w) dir of
           Some e \<Rightarrow> (Inl e, w)
         | None \<Rightarrow> (Inr p, record_event (Print (''Backup file path will be '' @ p))
                           (w\<lparr>made_dirs := made_dirs w @ [dir]\<rparr>)))"
  by (simp add: get_backup_file_path_def bind_io_def os_path_exists_def os_makedirs_def
        return_io_def print_def Let_def split: option.splits)

lemma create_backup_run:
  "create_backup c p h w =
     (case enable_out c of
        Some e \<Rightarrow> (Inl (NameError ''Error''), record_event Enable w)
      | None \<Rightarrow>
         (case send_command_out c ''sh run'' of
            Inl e \<Rightarrow> (Inl (NameError ''Error''),
                       record_event (SendCommand ''sh run'' False) (record_event Enable w))
          | Inr cfg \<Rightarrow>
             (case open_out w (log w @ [Enable, SendCommand ''sh run'' False]) p of
                Some e \<Rightarrow> (Inl (NameError ''Error''),
                       record_event (SendCommand ''sh run'' False) (record_event Enable w))
              | None \<Rightarrow>
                 (case write_out w (log w @ [Enable, SendCommand ''sh run'' False]) p of
                    Some (e, k) \<Rightarrow> (Inl (NameError ''Error''),
                       (record_event (SendCommand ''sh run'' False) (record_event Enable w))
                         \<lparr>files := (files w)(p \<mapsto> take k cfg)\<rparr>)
                  | None \<Rightarrow> (Inr True,
                       record_event (Print (''Backup of '' @ h @ '' is complete!''))
                         ((record_event (SendCommand ''sh run'' False) (record_event Enable w))
                            \<lparr>files := (files w)(p \<mapsto> cfg)\<rparr>))))))"
  by (simp add: create_backup_def try_except_Error_def bind_io_def enable_def call_def
        send_command_def write_text_def print_def return_io_def
        split: option.splits sum.splits prod.splits)




lemma report_line_SomeD:
  assumes "report_line host = Some line"
  obtains cdp ver ntp h hw v cls where
    "send_textfsm_out host ''sh cdp neighbors detail'' = Inr cdp"
    "send_textfsm_out host ''sh ver'' = Inr ver"
    "send_command_out host ''sh ntp asso'' = Inr ntp"
    "version_fields ver = Inr (h, hw, v, cls)"
    "line = h @ ''|'' @ hw @ ''|'' @ v @ ''|'' @ cls @ ''|'' @ cdp_summary cdp @ ''|''
              @ ntp_status NTP_SERVER ntp"
  using assms unfolding report_line_def
  by (cases "send_textfsm_out host ''sh cdp neighbors detail''";
      cases "send_textfsm_out host ''sh ver''";
      cases "send_command_out host ''sh ntp asso''")
     (auto split: sum.splits)

lemma process_target_unreachable:
  "connect_out host = Some e \<Longrightarrow>
     process_target host device ts w = (Inl e, record_event (Connect device) w)"
  by (simp add: process_target_rest bind_io_def connect_to_device_run)

lemma main_loop_append:
  "main_loop ts (xs @ ys) acc = bind_io (main_loop ts xs acc) (\<lambda>rs. main_loop ts ys rs)"
proof (induction xs arbitrary: acc)
  case Nil
  show ?case by (simp add: bind_io_return)
next
  case (Cons x xs)
  obtain d h where x: "x = (d, h)" by (cases x)
  show ?case by (simp add: x Cons.IH bind_io_assoc)
qed

lemma main_loop_Inr:
  "main_loop ts fleet acc w = (Inr rs, w') \<Longrightarrow>
     map Some rs = map Some acc @ map (\<lambda>(device, host). report_line host) fleet"
proof (induction fleet arbitrary: acc w)
  case Nil
  then show ?case by (simp add: return_io_eq)
next
  case (Cons x fleet)
  obtain d h where x: "x = (d, h)" by (cases x)
  from Cons.prems obtain line w1 where p: "process_target h d ts w = (Inr line, w1)"
    and l: "main_loop ts fleet (acc @ [line]) w1 = (Inr rs, w')"
    unfolding x main_loop.simps bind_io_Inr by blast
  from Cons.IH [OF l] process_target_line [OF p] show ?case by (simp add: x)
qed

lemma main_loop_Inl:
  "main_loop ts fleet acc w = (Inl e, w') \<Longrightarrow>
     \<exists>pre device host rest rs0 w1. fleet = pre @ (device, host) # rest \<and>
        main_loop ts pre acc w = (Inr rs0, w1) \<and>
        process_target host device ts w1 = (Inl e, w')"
proof (induction fleet arbitrary: acc w)
  case Nil
  then show ?case by (simp add: return_io_eq)
next
  case (Cons x fleet)
  obtain d h where x: "x = (d, h)" by (cases x)
  from Cons.prems consider "process_target h d ts w = (Inl e, w')"
    | line w1 where "process_target h d ts w = (Inr line, w1)"
        "main_loop ts fleet (acc @ [line]) w1 = (Inl e, w')"
    unfolding x main_loop.simps bind_io_Inl by blast
  then show ?case
  proof cases
    case 1
    have "main_loop ts [] acc w = (Inr acc, w)" by (simp add: return_io_def)
    with 1 x show ?thesis by (metis append_Nil)
  next
    case 2
    from Cons.IH [OF 2(2)] obtain pre device host rest rs0 w2 where
      f: "fleet = pre @ (device, host) # rest" and
      m: "main_loop ts pre (acc @ [line]) w1 = (Inr rs0, w2)" and
      p: "process_target host device ts w2 = (Inl e, w')" by blast
    from 2(1) m have "main_loop ts ((d, h) # pre) acc w = (Inr rs0, w2)"
      by (simp add: bind_io_def)
    moreover from f x have "x # fleet = ((d, h) # pre) @ (device, host) # rest" by simp
    ultimately show ?thesis using p by blast
  qed
qed

lemma prefix_slash: "prefix ''/'' s \<longleftrightarrow> s \<noteq> [] \<and> hd s = CHR ''/''"
  by (cases s) auto

lemma suffix_slash: "suffix ''/'' s \<longleftrightarrow> s \<noteq> [] \<and> last s = CHR ''/''"
proof (cases s rule: rev_cases)
  case Nil
  then show ?thesis by simp
next
  case (snoc ys y)
  then show ?thesis by (auto simp: suffix_def)
qed

lemma backup_dir_join:
  "os_path_join BACKUP_DIR_PATH [h] = (if prefix ''/'' h then h else ''backups/'' @ h)"
  by (simp add: os_path_join_def join_step_def BACKUP_DIR_PATH_def suffix_slash)

lemma backup_file_join:
  "os_path_join BACKUP_DIR_PATH [h, h @ ''-'' @ ts @ ''.txt''] =
     (if prefix ''/'' h then h @ ''-'' @ ts @ ''.txt''
      else if h = [] \<or> last h = CHR ''/'' then ''backups/'' @ h @ h @ ''-'' @ ts @ ''.txt''
      else ''backups/'' @ h @ ''/'' @ h @ ''-'' @ ts @ ''.txt'')"
  by (cases h) (auto simp: os_path_join_def join_step_def BACKUP_DIR_PATH_def suffix_slash
        prefix_slash)

lemma backup_file_join_iff:
  "os_path_join BACKUP_DIR_PATH [h, h @ ''-'' @ ts @ ''.txt'']
     = ''backups/'' @ h @ ''/'' @ h @ ''-'' @ ts @ ''.txt''
   \<longleftrightarrow> h \<noteq> [] \<and> \<not> prefix ''/'' h \<and> \<not> suffix ''/'' h"
proof (cases h)
  case Nil
  with backup_file_join [of h ts] show ?thesis by simp
next
  case (Cons c cs)
  show ?thesis
  proof (cases "c = CHR ''/''")
    case True
    with Cons backup_file_join [of h ts] show ?thesis by simp
  next
    case False
    with Cons backup_file_join [of h ts] show ?thesis
      by (auto simp: prefix_slash suffix_slash)
  qed
qed

lemma run_second_unreachable:
  "fst (main ''T'' [(r2, pe_host), (r1, unreachable)] w0)
     = Inl (NetmikoException ''connection timed out'')"
  by code_simp

lemma run_two_healthy:
  "fst (main ''T'' [(r1, healthy), (r2, pe_host)] w0)
     = Inr [''R1|3725|12.4(15)T|NPE|CDP is ON, 0 peers|Clock in Sync'',
            ''R2|2911|15.2(4)M|PE|CDP is ON, 0 peers|Clock in Sync'']"
  by code_simp

subsection \<open>The fleet run\<close>

text \<open>
  Claim C1 says that the run gives one Result per device whatever fails. The loop of
  \<open>main\<close> has no handler, so this holds only for a run in which no pipeline raises. As
  amended: when \<open>main\<close> returns, it has collected exactly one line per device, the line
  of the \<open>i\<close>-th device at position \<open>i\<close>, and printed them in that order; when \<open>main\<close>
  raises, the exception is that of the pipeline of one device, reached after the devices
  before it had returned, and the run stops in the world that pipeline left, with no
  line printed.
\<close>

theorem fleet_run_in_order:
  "(main ts fleet w = (Inr rs, w') \<longrightarrow>
      length rs = length fleet \<and>
      map Some rs = map (\<lambda>(device, host). report_line host) fleet \<and>
      (\<exists>before. log w' = before @ [Print (join_lines rs)])) \<and>
   (main ts fleet w = (Inl e, w') \<longrightarrow>
      (\<exists>pre device host rest rs0 w1. fleet = pre @ (device, host) # rest \<and>
         main_loop ts pre [] w = (Inr rs0, w1) \<and>
         process_target host device ts w1 = (Inl e, w')))"
proof (intro conjI impI)
  assume a: "main ts fleet w = (Inr rs, w')"
  then obtain w1 where l: "main_loop ts fleet [] w = (Inr rs, w1)"
    and w': "w' = record_event (Print (join_lines rs)) w1"
    unfolding main_def by (auto simp: bind_io_Inr return_io_eq print_eq)
  from main_loop_Inr [OF l]
  show m: "map Some rs = map (\<lambda>(device, host). report_line host) fleet" by simp
  from arg_cong [OF m, of length] show "length rs = length fleet" by simp
  from w' show "\<exists>before. log w' = before @ [Print (join_lines rs)]" by simp
next
  assume "main ts fleet w = (Inl e, w')"
  then have "main_loop ts fleet [] w = (Inl e, w')"
    unfolding main_def by (auto simp: bind_io_Inl bind_io_Inr return_io_eq print_eq)
  from main_loop_Inl [OF this]
  show "\<exists>pre device host rest rs0 w1. fleet = pre @ (device, host) # rest \<and>
         main_loop ts pre [] w = (Inr rs0, w1) \<and>
         process_target host device ts w1 = (Inl e, w')" .
qed

theorem fleet_run_in_order_witness:
  "main ''T'' [(r1, healthy), (r2, pe_host)] w0
     = (Inr [''R1|3725|12.4(15)T|NPE|CDP is ON, 0 peers|Clock in Sync'',
             ''R2|2911|15.2(4)M|PE|CDP is ON, 0 peers|Clock in Sync''],
        snd (main ''T'' [(r1, healthy), (r2, pe_host)] w0)) \<and>
   map (\<lambda>(device, host). report_line host) [(r1, healthy), (r2, pe_host)]
     = [Some ''R1|3725|12.4(15)T|NPE|CDP is ON, 0 peers|Clock in Sync'',
        Some ''R2|2911|15.2(4)M|PE|CDP is ON, 0 peers|Clock in Sync''] \<and>
   main ''T'' [(r2, pe_host), (r1, unreachable)] w0
     = (Inl (NetmikoException ''connection timed out''),
        snd (main ''T'' [(r2, pe_host), (r1, unreachable)] w0)) \<and>
   (\<exists>pre device host rest rs0 w1.
      [(r2, pe_host), (r1, unreachable)] = pre @ (device, host) # rest \<and>
      main_loop ''T'' pre [] w0 = (Inr rs0, w1) \<and>
      process_target host device ''T'' w1
        = (Inl (NetmikoException ''connection timed out''),
           snd (main ''T'' [(r2, pe_host), (r1, unreachable)] w0)))"
proof -
  from run_two_healthy have a: "main ''T'' [(r1, healthy), (r2, pe_host)] w0
     = (Inr [''R1|3725|12.4(15)T|NPE|CDP is ON, 0 peers|Clock in Sync'',
             ''R2|2911|15.2(4)M|PE|CDP is ON, 0 peers|Clock in Sync''],
        snd (main ''T'' [(r1, healthy), (r2, pe_host)] w0))"
    by (metis prod.collapse)
  from run_second_unreachable have b: "main ''T'' [(r2, pe_host), (r1, unreachable)] w0
     = (Inl (NetmikoException ''connection timed out''),
        snd (main ''T'' [(r2, pe_host), (r1, unreachable)] w0))"
    by (metis prod.collapse)
  from fleet_run_in_order [of "''T''" "[(r1, healthy), (r2, pe_host)]" w0
      "[''R1|3725|12.4(15)T|NPE|CDP is ON, 0 peers|Clock in Sync'',
        ''R2|2911|15.2(4)M|PE|CDP is ON, 0 peers|Clock in Sync'']"
      "snd (main ''T'' [(r1, healthy), (r2, pe_host)] w0)"
      "NetmikoException ''connection timed out''"] a
  have c: "map (\<lambda>(device, host). report_line host) [(r1, healthy), (r2, pe_host)]
     = [Some ''R1|3725|12.4(15)T|NPE|CDP is ON, 0 peers|Clock in Sync'',
        Some ''R2|2911|15.2(4)M|PE|CDP is ON, 0 peers|Clock in Sync'']"
    by simp
  from fleet_run_in_order [of "''T''" "[(r2, pe_host), (r1, unreachable)]" w0 "[]"
      "snd (main ''T'' [(r2, pe_host), (r1, unreachable)] w0)"
      "NetmikoException ''connection timed out''"] b
  have d: "\<exists>pre device host rest rs0 w1.
      [(r2, pe_host), (r1, unreachable)] = pre @ (device, host) # rest \<and>
      main_loop ''T'' pre [] w0 = (Inr rs0, w1) \<and>
      process_target host device ''T'' w1
        = (Inl (NetmikoException ''connection timed out''),
           snd (main ''T'' [(r2, pe_host), (r1, unreachable)] w0))"
    by blast
  from a b c d show ?thesis by blast
qed

text \<open>
  Claim C1 as stated fails: with a healthy first device and an unreachable second one,
  the run returns no list of two Results.
\<close>

theorem fleet_run_counterexample:
  "\<not> (\<exists>rs w'. main ''T'' [(r2, pe_host), (r1, unreachable)] w0 = (Inr rs, w') \<and>
        length rs = length [(r2, pe_host), (r1, unreachable)])"
  using run_second_unreachable by auto

subsection \<open>The backup path\<close>

text \<open>
  Claim C9 says that the path is \<open>backups/H/H-T.txt\<close> for every host name \<open>H\<close>. With
  \<open>os.path.join\<close> this is so exactly for the names that are not empty and neither start
  nor end with the separator. As amended: \<open>get_backup_file_path\<close> returns the join of the
  backup root, \<open>H\<close> and \<open>H-T.txt\<close>, and it returns exactly when \<open>os.path.exists\<close> finds
  the join of the backup root and \<open>H\<close>, or \<open>os.makedirs\<close> of it does not raise;
  \<open>os.makedirs\<close> creates that directory when \<open>os.path.exists\<close> does not find it, and is
  not called when it does. The directory is \<open>backups/H\<close>, and \<open>H\<close> itself when \<open>H\<close>
  starts with \<open>/\<close>; the file path is the text \<open>backups/H/H-T.txt\<close> if and only if
  \<open>H\<close> is not empty and neither starts nor ends with \<open>/\<close>, and \<open>H-T.txt\<close> when \<open>H\<close>
  starts with \<open>/\<close>. When \<open>enable\<close>, \<open>sh run\<close>, \<open>open\<close> and \<open>write\<close> succeed,
  \<open>create_backup\<close> returns \<open>True\<close> and the text of \<open>sh run\<close> is the content of the file,
  whatever the file held before.
\<close>

theorem backup_path_and_overwrite:
  "((\<exists>w'. get_backup_file_path h ts w = (Inr p, w')) \<longleftrightarrow>
      p = os_path_join BACKUP_DIR_PATH [h, h @ ''-'' @ ts @ ''.txt''] \<and>
      (os_path_exists_out w (log w) (os_path_join BACKUP_DIR_PATH [h]) \<or>
       os_makedirs_out w (log w) (os_path_join BACKUP_DIR_PATH [h]) = None)) \<and>
   made_dirs (snd (get_backup_file_path h ts w))
     = (if \<not> os_path_exists_out w (log w) (os_path_join BACKUP_DIR_PATH [h]) \<and>
           os_makedirs_out w (log w) (os_path_join BACKUP_DIR_PATH [h]) = None
        then made_dirs w @ [os_path_join BACKUP_DIR_PATH [h]] else made_dirs w) \<and>
   os_path_join BACKUP_DIR_PATH [h] = (if prefix ''/'' h then h else ''backups/'' @ h) \<and>
   os_path_join BACKUP_DIR_PATH [h, h @ ''-'' @ ts @ ''.txt'']
     = (if prefix ''/'' h then h @ ''-'' @ ts @ ''.txt''
        else if h = [] \<or> suffix ''/'' h then ''backups/'' @ h @ h @ ''-'' @ ts @ ''.txt''
        else ''backups/'' @ h @ ''/'' @ h @ ''-'' @ ts @ ''.txt'') \<and>
   (os_path_join BACKUP_DIR_PATH [h, h @ ''-'' @ ts @ ''.txt'']
      = ''backups/'' @ h @ ''/'' @ h @ ''-'' @ ts @ ''.txt''
    \<longleftrightarrow> h \<noteq> [] \<and> \<not> prefix ''/'' h \<and> \<not> suffix ''/'' h) \<and>
   (enable_out c = None \<and> send_command_out c ''sh run'' = Inr cfg \<and>
    open_out w (log w @ [Enable, SendCommand ''sh run'' False]) q = None \<and>
    write_out w (log w @ [Enable, SendCommand ''sh run'' False]) q = None \<longrightarrow>
      fst (create_backup c q h w) = Inr True \<and>
      files (snd (create_backup c q h w)) q = Some cfg)"
proof (intro conjI impI)
  show "(\<exists>w'. get_backup_file_path h ts w = (Inr p, w')) \<longleftrightarrow>
      p = os_path_join BACKUP_DIR_PATH [h, h @ ''-'' @ ts @ ''.txt''] \<and>
      (os_path_exists_out w (log w) (os_path_join BACKUP_DIR_PATH [h]) \<or>
       os_makedirs_out w (log w) (os_path_join BACKUP_DIR_PATH [h]) = None)"
    by (auto simp: get_backup_file_path_run Let_def split: option.splits)
  show "made_dirs (snd (get_backup_file_path h ts w))
     = (if \<not> os_path_exists_out w (log w) (os_path_join BACKUP_DIR_PATH [h]) \<and>
           os_makedirs_out w (log w) (os_path_join BACKUP_DIR_PATH [h]) = None
        then made_dirs w @ [os_path_join BACKUP_DIR_PATH [h]] else made_dirs w)"
    by (auto simp: get_backup_file_path_run Let_def split: option.splits)
  show "os_path_join BACKUP_DIR_PATH [h] = (if prefix ''/'' h then h else ''backups/'' @ h)"
    by (rule backup_dir_join)
  show "os_path_join BACKUP_DIR_PATH [h, h @ ''-'' @ ts @ ''.txt'']
     = (if prefix ''/'' h then h @ ''-'' @ ts @ ''.txt''
        else if h = [] \<or> suffix ''/'' h then ''backups/'' @ h @ h @ ''-'' @ ts @ ''.txt''
        else ''backups/'' @ h @ ''/'' @ h @ ''-'' @ ts @ ''.txt'')"
    using backup_file_join [of h ts] by (simp add: suffix_slash)
  show "os_path_join BACKUP_DIR_PATH [h, h @ ''-'' @ ts @ ''.txt'']
      = ''backups/'' @ h @ ''/'' @ h @ ''-'' @ ts @ ''.txt''
    \<longleftrightarrow> h \<noteq> [] \<and> \<not> prefix ''/'' h \<and> \<not> suffix ''/'' h"
    by (rule backup_file_join_iff)
next
  assume "enable_out c = None \<and> send_command_out c ''sh run'' = Inr cfg \<and>
    open_out w (log w @ [Enable, SendCommand ''sh run'' False]) q = None \<and>
    write_out w (log w @ [Enable, SendCommand ''sh run'' False]) q = None"
  then show "fst (create_backup c q h w) = Inr True"
    and "files (snd (create_backup c q h w)) q = Some cfg"
    by (simp_all add: create_backup_run)
qed

theorem backup_path_and_overwrite_witness:
  "fst (get_backup_file_path ''r1'' ''T'' w0) = Inr ''backups/r1/r1-T.txt'' \<and>
   made_dirs (snd (get_backup_file_path ''r1'' ''T'' w0)) = [''backups/r1''] \<and>
   fst (get_backup_file_path ''r1'' ''T'' with_old_backup) = Inr ''backups/r1/r1-T.txt'' \<and>
   made_dirs (snd (get_backup_file_path ''r1'' ''T'' with_old_backup)) = [] \<and>
   files with_old_backup ''backups/r1/r1-T.txt'' = Some ''hostname OLD'' \<and>
   enable_out healthy = None \<and> send_command_out healthy ''sh run'' = Inr ''hostname R1'' \<and>
   open_out with_old_backup (log with_old_backup @ [Enable, SendCommand ''sh run'' False])
     ''backups/r1/r1-T.txt'' = None \<and>
   write_out with_old_backup (log with_old_backup @ [Enable, SendCommand ''sh run'' False])
     ''backups/r1/r1-T.txt'' = None \<and>
   fst (create_backup healthy ''backups/r1/r1-T.txt'' ''r1'' with_old_backup) = Inr True \<and>
   files (snd (create_backup healthy ''backups/r1/r1-T.txt'' ''r1'' with_old_backup))
     ''backups/r1/r1-T.txt'' = Some ''hostname R1''"
proof -
  let ?p = "''backups/r1/r1-T.txt''"
  have j: "os_path_join BACKUP_DIR_PATH [''r1'', ''r1'' @ ''-'' @ ''T'' @ ''.txt''] = ?p"
    "os_path_join BACKUP_DIR_PATH [''r1''] = ''backups/r1''"
    by code_simp+
  have o: "\<not> os_path_exists_out w0 (log w0) ''backups/r1''"
    "os_makedirs_out w0 (log w0) ''backups/r1'' = None" "made_dirs w0 = []"
    by (simp_all add: w0_def)
  have o': "os_path_exists_out with_old_backup (log with_old_backup) ''backups/r1''"
    "made_dirs with_old_backup = []"
    "files with_old_backup ?p = Some ''hostname OLD''"
    by (simp_all add: with_old_backup_def w0_def)
  have a: "enable_out healthy = None" "send_command_out healthy ''sh run'' = Inr ''hostname R1''"
    "open_out with_old_backup (log with_old_backup @ [Enable, SendCommand ''sh run'' False]) ?p
       = None"
    "write_out with_old_backup (log with_old_backup @ [Enable, SendCommand ''sh run'' False]) ?p
       = None"
    by (simp_all add: healthy_def with_old_backup_def w0_def)
  note t = backup_path_and_overwrite [of "''r1''" "''T''" w0 ?p healthy "''hostname R1''" ?p]
  note t' = backup_path_and_overwrite [of "''r1''" "''T''" with_old_backup ?p healthy
      "''hostname R1''" ?p]
  from t j o have g: "\<exists>w'. get_backup_file_path ''r1'' ''T'' w0 = (Inr ?p, w')" by simp
  then have g1: "fst (get_backup_file_path ''r1'' ''T'' w0) = Inr ?p" by auto
  from t j o have g2: "made_dirs (snd (get_backup_file_path ''r1'' ''T'' w0)) = [''backups/r1'']"
    by simp
  from t' j o' have "\<exists>w'. get_backup_file_path ''r1'' ''T'' with_old_backup = (Inr ?p, w')"
    by simp
  then have h1: "fst (get_backup_file_path ''r1'' ''T'' with_old_backup) = Inr ?p" by auto
  from t' j o' have h2: "made_dirs (snd (get_backup_file_path ''r1'' ''T'' with_old_backup)) = []"
    by simp
  from t' a have c1: "fst (create_backup healthy ?p ''r1'' with_old_backup) = Inr True"
    and c2: "files (snd (create_backup healthy ?p ''r1'' with_old_backup)) ?p
               = Some ''hostname R1''"
    by blast+
  from g1 g2 h1 h2 o'(3) a c1 c2 show ?thesis by blast
qed

text \<open>
  Claim C9 as stated fails for a host name that starts with the separator: the path is
  then \<open>H-T.txt\<close>, which does not begin with the backup root, and the directory that
  is made is \<open>H\<close>.
\<close>

theorem backup_path_counterexample:
  "fst (get_backup_file_path ''/r1'' ''T'' w0) = Inr ''/r1-T.txt'' \<and>
   ''/r1-T.txt'' \<noteq> ''backups'' @ ''/'' @ ''/r1'' @ ''/'' @ ''/r1'' @ ''-'' @ ''T'' @ ''.txt'' \<and>
   \<not> prefix BACKUP_DIR_PATH ''/r1-T.txt'' \<and>
   made_dirs (snd (get_backup_file_path ''/r1'' ''T'' w0)) = [''/r1'']"
  by code_simp

subsection \<open>A connection that cannot be opened\<close>

text \<open>
  Claim C2 says that a device whose connection fails gets a Result with empty fields and
  that the other devices are not affected. \<open>process_target\<close> has no handler and neither
  has \<open>main\<close>. As amended: when \<open>ConnectHandler\<close> raises for a device, the pipeline of
  that device stops at once with that exception, having made no call but the connection
  attempt, and gives no Result; the exception leaves \<open>main\<close> too, after the devices
  before it in the inventory have run, so the devices after it are never contacted and
  nothing is reported. Privilege escalation is not part of the connect step: \<open>enable\<close>
  is called inside \<open>create_backup\<close>.
\<close>

theorem connect_failure_aborts_run:
  assumes "connect_out host = Some e"
  shows "process_target host device ts w = (Inl e, record_event (Connect device) w) \<and>
         (main_loop ts pre [] w = (Inr rs, w1) \<longrightarrow>
            main ts (pre @ (device, host) # rest) w
              = (Inl e, record_event (Connect device) w1))"
proof (intro conjI impI)
  show "process_target host device ts w = (Inl e, record_event (Connect device) w)"
    using assms by (rule process_target_unreachable)
next
  assume "main_loop ts pre [] w = (Inr rs, w1)"
  then show "main ts (pre @ (device, host) # rest) w
               = (Inl e, record_event (Connect device) w1)"
    by (simp add: main_def main_loop_append bind_io_def
          process_target_unreachable [OF assms])
qed

theorem connect_failure_aborts_run_witness:
  "connect_out unreachable = Some (NetmikoException ''connection timed out'') \<and>
   process_target unreachable r1 ''T'' w0
     = (Inl (NetmikoException ''connection timed out''), record_event (Connect r1) w0) \<and>
   main_loop ''T'' [] [] w0 = (Inr [], w0) \<and>
   main ''T'' [(r1, unreachable), (r2, pe_host)] w0
     = (Inl (NetmikoException ''connection timed out''), record_event (Connect r1) w0)"
proof -
  have a: "connect_out unreachable = Some (NetmikoException ''connection timed out'')"
    by (simp add: unreachable_def)
  have b: "main_loop ''T'' [] [] w0 = (Inr [], w0)" by (simp add: return_io_def)
  from connect_failure_aborts_run [OF a, of r1 "''T''" w0 "[]" "[]" w0 "[(r2, pe_host)]"] a b
  show ?thesis by simp
qed

text \<open>
  Claim C2 as stated fails: with an unreachable first device, the run gives no Result
  for it, and the second device is never contacted.
\<close>

theorem connect_failure_counterexample:
  "\<not> (\<exists>rs w'. main ''T'' [(r1, unreachable), (r2, pe_host)] w0 = (Inr rs, w')) \<and>
   log (snd (main ''T'' [(r1, unreachable), (r2, pe_host)] w0)) = [Connect r1]"
proof -
  have "main ''T'' ([] @ (r1, unreachable) # [(r2, pe_host)]) w0
     = (Inl (NetmikoException ''connection timed out''), record_event (Connect r1) w0)"
    by (simp add: main_def main_loop_append bind_io_def return_io_def
          process_target_unreachable unreachable_def)
  then show ?thesis by (simp add: w0_def)
qed

subsection \<open>Closing the session\<close>

lemma pipeline_rest_ends:
  assumes "pipeline_rest c d ts w = (Inr line, w')"
  shows "\<exists>before. log w' = before @ [Disconnect,
           Print (''Connection to device '' @ dev_hostname d @ '' terminated'')]"
proof -
  from assms obtain w8 u where "disconnect_from_device c (dev_hostname d) w8 = (Inr u, w')"
    unfolding pipeline_rest_def
    by (auto simp: bind_io_Inr return_io_eq split: prod.splits)
  then have "w' = record_event (Print (''Connection to device '' @ dev_hostname d @ '' terminated''))
                   (record_event Disconnect w8)"
    by (simp add: disconnect_from_device_run split: option.splits)
  then show ?thesis by simp
qed

lemma process_target_ends:
  assumes "process_target host d ts w = (Inr line, w')"
  shows "\<exists>before. log w' = before @ [Disconnect,
           Print (''Connection to device '' @ dev_hostname d @ '' terminated'')]"
proof -
  from assms obtain c w1 where "pipeline_rest c d ts w1 = (Inr line, w')"
    unfolding process_target_rest bind_io_Inr by blast
  then show ?thesis by (rule pipeline_rest_ends)
qed

text \<open>
  Claim C3 says that \<open>disconnect\<close> runs once on every path out of a pipeline whose
  connection was opened. \<open>process_target\<close> calls \<open>disconnect_from_device\<close> as its last
  step and has no \<open>finally\<close>. As amended: when the pipeline returns, \<open>disconnect\<close> has
  been called exactly once in it, as its last call on the session; when the pipeline
  raises and the exception is not that of \<open>disconnect\<close> itself, \<open>disconnect\<close> has not
  been called, so after a failure of a step that follows the connection the session
  stays open.
\<close>

theorem disconnect_on_return_only:
  "(process_target host device ts w = (Inr line, w') \<longrightarrow>
      disconnects w' = disconnects w + 1 \<and>
      (\<exists>before. log w' = before @ [Disconnect,
          Print (''Connection to device '' @ dev_hostname device @ '' terminated'')])) \<and>
   (process_target host device ts w = (Inl e, w') \<and> disconnect_out host = None \<longrightarrow>
      disconnects w' = disconnects w)"
  using process_target_Inr process_target_Inl process_target_ends by blast

theorem disconnect_on_return_only_witness:
  "process_target healthy r1 ''T'' w0
     = (Inr ''R1|3725|12.4(15)T|NPE|CDP is ON, 0 peers|Clock in Sync'',
        snd (process_target healthy r1 ''T'' w0)) \<and>
   disconnects (snd (process_target healthy r1 ''T'' w0)) = 1 \<and>
   process_target cdp_timeout r1 ''T'' w0
     = (Inl (NetmikoException ''read timeout''), snd (process_target cdp_timeout r1 ''T'' w0)) \<and>
   disconnect_out cdp_timeout = None \<and>
   disconnects (snd (process_target cdp_timeout r1 ''T'' w0)) = 0"
proof -
  let ?ok = "process_target healthy r1 ''T'' w0"
  let ?ko = "process_target cdp_timeout r1 ''T'' w0"
  have "fst ?ok = Inr ''R1|3725|12.4(15)T|NPE|CDP is ON, 0 peers|Clock in Sync''"
    by code_simp
  then have a: "?ok = (Inr ''R1|3725|12.4(15)T|NPE|CDP is ON, 0 peers|Clock in Sync'', snd ?ok)"
    by (metis prod.collapse)
  have "fst ?ko = Inl (NetmikoException ''read timeout'')" by code_simp
  then have b: "?ko = (Inl (NetmikoException ''read timeout''), snd ?ko)"
    by (metis prod.collapse)
  have c: "disconnect_out cdp_timeout = None" by (simp add: cdp_timeout_def healthy_def)
  have z: "disconnects w0 = 0" by (simp add: disconnects_def w0_def)
  from disconnect_on_return_only [of healthy r1 "''T''" w0
      "''R1|3725|12.4(15)T|NPE|CDP is ON, 0 peers|Clock in Sync''" "snd ?ok"] a z
  have d: "disconnects (snd ?ok) = 1" by simp
  from disconnect_on_return_only [of cdp_timeout r1 "''T''" w0 _ "snd ?ko"
      "NetmikoException ''read timeout''"] b c z
  have e: "disconnects (snd ?ko) = 0" by simp
  from a b c d e show ?thesis by blast
qed

text \<open>
  Claim C3 as stated fails: when the CDP command times out, the connection has been
  opened, the pipeline raises, and its log holds no \<open>Disconnect\<close>.
\<close>

theorem disconnect_counterexample:
  "fst (process_target cdp_timeout r1 ''T'' w0) = Inl (NetmikoException ''read timeout'') \<and>
   log (snd (process_target cdp_timeout r1 ''T'' w0)) =
     [Connect r1, Print ''Opened connection to 10.0.0.1'',
      Print ''Backup file path will be backups/r1/r1-T.txt'', Enable,
      SendCommand ''sh run'' False, Print ''Backup of r1 is complete!'',
      SendCommand ''sh cdp neighbors detail'' True]"
  by code_simp

subsection \<open>The backup step\<close>













end
